theory Spec2Isabelle
  imports Main "HOL-Library.Sublist"
begin

section \<open>Python values shared by the modules\<close>

text \<open>
  Every function of the repository takes a list \<open>errors\<close> and appends to it instead
  of raising. An entry is either built by \<open>validate_format_error(code, *args)\<close> of
  the library pypomes_core (kept here as the code with its arguments, in the order the
  call gives them), or what \<open>pydb_common.db_except_msg(exception, name, host)\<close>
  makes of an exception, or a message appended by a library call (a database driver
  behind pypomes_db). The text of an exception stands for \<open>exc_format\<close> of it.
\<close>

datatype error =
    ValidateError nat "string list"
  | DbExceptMsg string "string option" "string option"
  | LibraryError string

text \<open>
  An exception that leaves a function of the repository: where the sources do not catch
  it, it is a result of the model (\<open>Inl\<close>), with what the function had done by then.
\<close>

datatype exn =
    AttributeError string
  | TypeError string
  | ValueError string

text \<open>
  Strings are lists of characters, and a character stands for the code point of the
  same number (the range of Latin-1). \<open>py_truthy\<close> is the truth value Python gives to
  the result of \<open>dict.get\<close> on a dictionary of strings: \<open>None\<close> and the empty string
  are false.
\<close>

definition py_truthy :: "string option \<Rightarrow> bool" where
  "py_truthy v = (case v of None \<Rightarrow> False | Some s \<Rightarrow> s \<noteq> [])"

definition is_digit :: "char \<Rightarrow> bool" where
  "is_digit c = (c \<in> set ''0123456789'')"

text \<open>
  The characters with a numeric value in Unicode, in this range: the ten digits, the
  superscripts two, three and one, and the fractions a quarter, a half and three
  quarters. \<open>str.isnumeric()\<close> holds of a string with at least one character, all of
  them of this kind.
\<close>

definition is_numeric_char :: "char \<Rightarrow> bool" where
  "is_numeric_char c =
     (is_digit c \<or> c \<in> set [CHR 0xB2, CHR 0xB3, CHR 0xB9, CHR 0xBC, CHR 0xBD, CHR 0xBE])"

definition isnumeric :: "string \<Rightarrow> bool" where
  "isnumeric s = (s \<noteq> [] \<and> list_all is_numeric_char s)"

definition digit_val :: "char \<Rightarrow> int" where
  "digit_val c = int (of_char c) - 48"

definition decimal_value :: "string \<Rightarrow> int" where
  "decimal_value s = foldl (\<lambda>acc c. 10 * acc + digit_val c) 0 s"

text \<open>
  \<open>int(s)\<close> for a string that \<open>str.isnumeric()\<close> accepts, which is the only use the
  sources make of it: the value of a string of decimal digits, and \<open>ValueError\<close> for a
  character that is not a decimal digit or for more than 4300 digits (the limit of
  CPython on the conversion of a string).
\<close>

definition py_int :: "string \<Rightarrow> exn + int" where
  "py_int s =
     (if s \<noteq> [] \<and> list_all is_digit s \<and> length s \<le> 4300
      then Inr (decimal_value s)
      else Inl (ValueError s))"

section \<open>pydb_oracle: the connection parameters of the Oracle engine\<close>

text \<open>
  The module keeps its parameters in global variables; the model passes them as a record.
\<close>

record oracle_globals =
  ORCL_DB_CLIENT :: "string option"
  ORCL_DB_NAME :: "string option"
  ORCL_DB_USER :: "string option"
  ORCL_DB_PWD :: "string option"
  ORCL_DB_HOST :: "string option"
  ORCL_DB_PORT :: "int option"

text \<open>
  \<open>set_connection_params(errors, scheme)\<close>: the driver attribute is refused, the port is
  stored as soon as \<open>int\<close> has converted it, and the other five parameters are stored
  only when the list of errors is empty at that point. A port that passes \<open>isnumeric\<close>
  and that \<open>int\<close> refuses ends the call with the exception, the errors recorded by
  then and the parameters as they were.
\<close>

definition set_connection_params ::
  "error list \<Rightarrow> (string \<rightharpoonup> string) \<Rightarrow> oracle_globals
     \<Rightarrow> (exn \<times> error list \<times> oracle_globals) + (error list \<times> oracle_globals)" where
  "set_connection_params errors scheme g =
     (let errors1 = (if py_truthy (scheme ''db-driver'')
                     then errors @ [ValidateError 113 [''Oracle'', ''@db-driver'']]
                     else errors)
      in case (if py_truthy (scheme ''db-port'')
               then (if isnumeric (the (scheme ''db-port''))
                     then (case py_int (the (scheme ''db-port'')) of
                             Inl e \<Rightarrow> Inl (e, errors1, g)
                           | Inr port \<Rightarrow> Inr (errors1, g\<lparr>ORCL_DB_PORT := Some port\<rparr>))
                     else Inr (errors1 @ [ValidateError 128 [''int'', ''@ORCL_DB_PORT'']], g))
               else Inr (errors1, g)) of
           Inl raised \<Rightarrow> Inl raised
         | Inr (errors2, g1) \<Rightarrow>
             Inr (if length errors2 = 0
                  then
                    (let g2 = (if py_truthy (scheme ''db-name'')
                               then g1\<lparr>ORCL_DB_NAME := scheme ''db-name''\<rparr> else g1);
                         g3 = (if py_truthy (scheme ''db-user'')
                               then g2\<lparr>ORCL_DB_USER := scheme ''db-user''\<rparr> else g2);
                         g4 = (if py_truthy (scheme ''db-pwd'')
                               then g3\<lparr>ORCL_DB_PWD := scheme ''db-pwd''\<rparr> else g3);
                         g5 = (if py_truthy (scheme ''db-client'')
                               then g4\<lparr>ORCL_DB_CLIENT := scheme ''db-client''\<rparr> else g4);
                         g6 = (if py_truthy (scheme ''db-host'')
                               then g5\<lparr>ORCL_DB_HOST := scheme ''db-host''\<rparr> else g5)
                     in (errors2, g6))
                  else (errors2, g1)))"

text \<open>
  What a call leaves behind, however it ends: the list of errors and the stored
  parameters.
\<close>

definition left_behind ::
  "(exn \<times> error list \<times> oracle_globals) + (error list \<times> oracle_globals)
     \<Rightarrow> error list \<times> oracle_globals" where
  "left_behind outcome = (case outcome of Inl (e, errors, g) \<Rightarrow> (errors, g) | Inr done \<Rightarrow> done)"

text \<open>Stored parameters to start from, in the theorems that need a concrete call.\<close>

definition stored_params :: oracle_globals where
  "stored_params =
     \<lparr>ORCL_DB_CLIENT = None, ORCL_DB_NAME = Some ''old'', ORCL_DB_USER = None,
      ORCL_DB_PWD = None, ORCL_DB_HOST = None, ORCL_DB_PORT = None\<rparr>"

section \<open>More Python values\<close>

text \<open>\<open>str.lower()\<close> on an ASCII string.\<close>

definition char_lower :: "char \<Rightarrow> char" where
  "char_lower c =
     (case map_of (zip ''ABCDEFGHIJKLMNOPQRSTUVWXYZ'' ''abcdefghijklmnopqrstuvwxyz'') c of
        Some d \<Rightarrow> d
      | None \<Rightarrow> c)"

definition lower :: "string \<Rightarrow> string" where
  "lower s = map char_lower s"

text \<open>\<open>sep.join(xs)\<close>.\<close>

fun join :: "string \<Rightarrow> string list \<Rightarrow> string" where
  "join sep [] = []"
| "join sep [x] = x"
| "join sep (x # y # ys) = x @ sep @ join sep (y # ys)"

text \<open>What an f-string prints for a value that may be \<open>None\<close>.\<close>

definition py_str :: "string option \<Rightarrow> string" where
  "py_str v = (case v of None \<Rightarrow> ''None'' | Some s \<Rightarrow> s)"

section \<open>pydb_migrator: the data\<close>

text \<open>
  A column and a table as sqlalchemy reflects them, with the attributes the migrator
  reads and writes. The type is kept as the string \<open>str(column.type)\<close>.
\<close>

record column =
  col_name :: string
  col_type :: string
  col_server_default :: "string option"
  col_default :: "string option"

record table =
  tab_name :: string
  tab_schema :: "string option"
  tab_columns :: "column list"
  tab_indexes :: "string list"

text \<open>
  One entry of the list \<open>migrate_metadata\<close> returns. The entry is a dictionary with
  the four keys \<open>table\<close>, \<open>columns\<close>, \<open>count\<close> and \<open>status\<close>, always present; each
  element of \<open>columns\<close> is itself a dictionary from strings to strings, read with
  \<open>dict.get\<close>, and is kept as a map.
\<close>

record migrated_table =
  mt_table :: string
  mt_columns :: "(string \<rightharpoonup> string) list"
  mt_count :: nat
  mt_status :: string

type_synonym row = "string list"

text \<open>
  The text of a bulk statement is composed by the module of the engine. The modules
  \<open>pydb_postgres\<close> and \<open>pydb_sqlserver\<close> are not among the sources at hand, so a
  statement of theirs is kept as the engine and the arguments it is composed from: the
  schema, the table, the column names joined by \<open>", "\<close>, and for a \<open>SELECT\<close> the offset
  and the batch size.
\<close>

datatype stmt =
    BulkSelectStmt string string string string nat nat
  | BulkInsertStmt string string string string

text \<open>
  The calls that reach a database or the sqlalchemy engine, in the order they are made.
  The two data calls are recorded with what they returned. The last six are made by
  the module \<open>migration/steps/pydb_metadata\<close> only.
\<close>

datatype event =
    CreateEngine string
  | GetSchemaNames string
  | Reflect string string
  | ExecStmt string string
  | CreateAll string "table list"
  | DbConnect string
  | DisableSessionRestrictions string
  | RestoreSessionRestrictions string
  | ConnClose string
  | DbSelectAll string "stmt option" "row list" "error list"
  | DbBulkInsert string "stmt option" "row list" "error list"
  | GetViewNames string
  | GetMaterializedViewNames string
  | MigrateSchema string string "table list"
  | MigrateTables string string "table list"
  | DbGetViewScript string string string
  | DbExecute string string

text \<open>
  The world outside the module: the libraries (sqlalchemy, pypomes_db) and the modules of
  the package that the sources at hand do not include (\<open>pydb_validator\<close>,
  \<open>pydb_types\<close>, \<open>pydb_common\<close>, \<open>pydb_postgres\<close>, \<open>pydb_sqlserver\<close>). Every call that
  reaches a database answers as a function of the calls made so far, so that the same
  call may be answered differently at different times.
  \<^item> \<open>create_engine\<close>: the exception sqlalchemy raises for the engine, if any;
  \<^item> \<open>get_connection_params\<close>: the errors \<open>pydb_validator.get_connection_params\<close>
    appends and the dictionary it returns;
  \<^item> \<open>get_schema_names\<close>, \<open>reflect\<close>, \<open>sorted_tables\<close>: the inspector and the
    \<open>MetaData\<close> object of sqlalchemy;
  \<^item> \<open>execute\<close>, \<open>create_all\<close>: the exception raised by the statement, if any;
  \<^item> \<open>db_connect\<close>: the errors appended and whether a connection is returned;
  \<^item> \<open>engine_disable_session_restrictions\<close>, \<open>engine_restore_session_restrictions\<close>:
    the errors appended by the toggle of \<open>pydb_postgres\<close> or \<open>pydb_sqlserver\<close>;
  \<^item> \<open>db_select_all\<close>: the rows returned and the errors appended;
  \<^item> \<open>db_bulk_insert\<close>: the errors appended.
\<close>

record env =
  create_engine :: "event list \<Rightarrow> string \<Rightarrow> string option"
  get_connection_params :: "string \<Rightarrow> error list \<times> (string \<rightharpoonup> string)"
  get_schema_names :: "event list \<Rightarrow> string \<Rightarrow> string list"
  reflect :: "event list \<Rightarrow> string \<Rightarrow> string \<Rightarrow> table list"
  sorted_tables :: "table list \<Rightarrow> table list"
  execute :: "event list \<Rightarrow> string \<Rightarrow> string \<Rightarrow> string option"
  create_all :: "event list \<Rightarrow> string \<Rightarrow> table list \<Rightarrow> string option"
  establish_equivalences :: "string \<Rightarrow> string \<Rightarrow> int \<times> int"
  migrate_type :: "string \<Rightarrow> string \<Rightarrow> int \<Rightarrow> int \<Rightarrow> column \<Rightarrow> string"
  is_large_binary :: "string option \<Rightarrow> bool"
  db_connect :: "event list \<Rightarrow> string \<Rightarrow> error list \<times> bool"
  engine_disable_session_restrictions :: "event list \<Rightarrow> string \<Rightarrow> error list"
  engine_restore_session_restrictions :: "event list \<Rightarrow> string \<Rightarrow> error list"
  db_select_all :: "event list \<Rightarrow> string \<Rightarrow> stmt option \<Rightarrow> row list \<times> error list"
  db_bulk_insert :: "event list \<Rightarrow> string \<Rightarrow> stmt option \<Rightarrow> row list \<Rightarrow> error list"
  MIGRATION_BATCH_SIZE :: nat

section \<open>pydb_migrator: the functions\<close>

text \<open>
  \<open>build_engine(errors, rdbms, logger)\<close>: the engine (here, whether there is one), with
  the exception of \<open>create_engine\<close> turned into an entry of \<open>errors\<close>.
\<close>

definition build_engine ::
  "env \<Rightarrow> error list \<Rightarrow> string \<Rightarrow> event list \<Rightarrow> error list \<times> bool \<times> event list" where
  "build_engine env errors rdbms tr =
     (case create_engine env tr rdbms of
        None \<Rightarrow> (errors, True, tr @ [CreateEngine rdbms])
      | Some exc \<Rightarrow>
          (let (errs, params) = get_connection_params env rdbms
           in (errors @ errs @ [DbExceptMsg exc (params ''name'') (params ''host'')],
               False, tr @ [CreateEngine rdbms])))"

text \<open>
  \<open>engine_exc_stmt(errors, rdbms, engine, stmt, logger)\<close>: the statement is executed and
  committed; an exception becomes error 104.
\<close>

definition engine_exc_stmt ::
  "env \<Rightarrow> error list \<Rightarrow> string \<Rightarrow> string \<Rightarrow> event list \<Rightarrow> error list \<times> event list" where
  "engine_exc_stmt env errors rdbms stmt tr =
     (case execute env tr rdbms stmt of
        None \<Rightarrow> (errors, tr @ [ExecStmt rdbms stmt])
      | Some exc \<Rightarrow> (errors @ [ValidateError 104 [exc]], tr @ [ExecStmt rdbms stmt]))"

text \<open>
  \<open>column.lower()\<close> in \<open>setup_target_table\<close>: a sqlalchemy \<open>Column\<close> has no attribute
  \<open>lower\<close>, so the call raises \<open>AttributeError\<close> (\<open>Inl\<close>); it never returns a string
  (\<open>Inr\<close>).
\<close>

definition column_lower :: "column \<Rightarrow> string + string" where
  "column_lower column = Inl ''AttributeError''"

text \<open>
  The body of the loop of \<open>setup_target_table\<close>, for one column: the column is appended
  to the result, then its type is set, its server default removed and its default
  looked at, inside a \<open>try\<close> whose handler appends error 104. The column is changed in
  place, so what is appended is the column as the body leaves it.
\<close>

definition setup_target_column ::
  "env \<Rightarrow> string \<Rightarrow> string \<Rightarrow> int \<Rightarrow> int \<Rightarrow> error list \<times> column list \<Rightarrow> column
     \<Rightarrow> error list \<times> column list" where
  "setup_target_column env source_rdbms target_rdbms native_ordinal reference_ordinal acc column =
     (let (errors, result) = acc;
          target_type = migrate_type env source_rdbms target_rdbms
                          native_ordinal reference_ordinal column;
          column1 = column\<lparr>col_type := target_type\<rparr>;
          column2 = column1\<lparr>col_server_default := None\<rparr>
      in if col_default column2 \<noteq> None
         then (case column_lower column2 of
                 Inl exc \<Rightarrow> (errors @ [ValidateError 104 [exc]], result @ [column2])
               | Inr s \<Rightarrow>
                   if s \<in> set [''sysdate'', ''systime'']
                   then (errors, result @ [column2\<lparr>col_default := None\<rparr>])
                   else (errors, result @ [column2]))
         else (errors, result @ [column2]))"

definition setup_target_table ::
  "env \<Rightarrow> error list \<Rightarrow> string \<Rightarrow> string \<Rightarrow> int \<Rightarrow> int \<Rightarrow> table
     \<Rightarrow> error list \<times> column list" where
  "setup_target_table env errors source_rdbms target_rdbms native_ordinal reference_ordinal
       source_table =
     foldl (setup_target_column env source_rdbms target_rdbms native_ordinal reference_ordinal)
       (errors, []) (tab_columns source_table)"

text \<open>
  The loop that \<open>migrate_metadata\<close> runs over the schema names of a catalog: the first
  name equal to the wanted one, up to case.
\<close>

definition find_schema :: "string \<Rightarrow> string list \<Rightarrow> string option" where
  "find_schema schema names = find (\<lambda>schema_name. lower schema = lower schema_name) names"

text \<open>Lines 161 to 166: the tables are dropped, one statement each.\<close>

fun drop_tables ::
  "env \<Rightarrow> error list \<Rightarrow> string \<Rightarrow> string \<Rightarrow> table list \<Rightarrow> event list
     \<Rightarrow> error list \<times> event list" where
  "drop_tables env errors target_rdbms to_schema [] tr = (errors, tr)"
| "drop_tables env errors target_rdbms to_schema (source_table # rest) tr =
     (let drop_stmt = ''DROP TABLE IF EXISTS '' @ to_schema @ ''.'' @ tab_name source_table;
          (errors1, tr1) = engine_exc_stmt env errors target_rdbms drop_stmt tr
      in drop_tables env errors1 target_rdbms to_schema rest tr1)"

text \<open>
  Lines 168 to 182: the target schema is created, and the catalog is read again when
  the list of errors is empty.
\<close>

definition create_schema ::
  "env \<Rightarrow> error list \<Rightarrow> string \<Rightarrow> string \<Rightarrow> event list
     \<Rightarrow> error list \<times> string option \<times> event list" where
  "create_schema env errors target_rdbms target_schema tr =
     (let (errs, conn_params) = get_connection_params env target_rdbms;
          stmt = ''CREATE SCHEMA '' @ target_schema @ '' AUTHORIZATION ''
                   @ py_str (conn_params ''user'');
          (errors1, tr1) = engine_exc_stmt env (errors @ errs) target_rdbms stmt tr
      in if length errors1 = 0
         then (errors1, find_schema target_schema (get_schema_names env tr1 target_rdbms),
               tr1 @ [GetSchemaNames target_rdbms])
         else (errors1, None, tr1))"

text \<open>The dictionary made for a column at lines 197 to 200.\<close>

definition column_data :: "column \<Rightarrow> (string \<rightharpoonup> string)" where
  "column_data column = [''name'' \<mapsto> col_name column, ''source-type'' \<mapsto> col_type column]"

text \<open>
  Lines 211 to 214: the first dictionary with the column's name receives its target
  type.
\<close>

fun register_type ::
  "column \<Rightarrow> (string \<rightharpoonup> string) list \<Rightarrow> (string \<rightharpoonup> string) list" where
  "register_type column [] = []"
| "register_type column (table_column # rest) =
     (if table_column ''name'' = Some (col_name column)
      then table_column(''target-type'' \<mapsto> col_type column) # rest
      else table_column # register_type column rest)"

text \<open>
  Lines 191 to 223, for one source table: its columns are migrated, its schema is set
  and its entry is appended to the result with count 0 and status \<open>none\<close>.
\<close>

definition setup_target ::
  "env \<Rightarrow> string \<Rightarrow> string \<Rightarrow> int \<Rightarrow> int \<Rightarrow> string
     \<Rightarrow> error list \<times> table list \<times> migrated_table list \<Rightarrow> table
     \<Rightarrow> error list \<times> table list \<times> migrated_table list" where
  "setup_target env source_rdbms target_rdbms native_ordinal reference_ordinal to_schema
       acc source_table =
     (let (errors, tables, result) = acc;
          table_columns = map column_data (tab_columns source_table);
          (errors1, columns) = setup_target_table env errors source_rdbms target_rdbms
                                 native_ordinal reference_ordinal source_table;
          source_table1 = source_table\<lparr>tab_columns := columns, tab_schema := Some to_schema\<rparr>;
          table_columns1 = foldl (\<lambda>tcs column. register_type column tcs) table_columns columns;
          migrated_table = \<lparr>mt_table = tab_name source_table, mt_columns = table_columns1,
                             mt_count = 0, mt_status = ''none''\<rparr>
      in (errors1, tables @ [source_table1], result @ [migrated_table]))"

text \<open>
  Lines 146 to 238: the target side of \<open>migrate_metadata\<close>, for the tables that are to
  be migrated.
\<close>

definition materialize ::
  "env \<Rightarrow> error list \<Rightarrow> string \<Rightarrow> string \<Rightarrow> string \<Rightarrow> table list \<Rightarrow> event list
     \<Rightarrow> error list \<times> migrated_table list \<times> event list" where
  "materialize env errors source_rdbms target_rdbms target_schema source_tables tr =
     (let to_schema = find_schema target_schema (get_schema_names env tr target_rdbms);
          tr1 = tr @ [GetSchemaNames target_rdbms];
          (errors1, to_schema1, tr2) =
            (if py_truthy to_schema
             then (let (errs, tr') = drop_tables env errors target_rdbms (the to_schema)
                                       (rev source_tables) tr1
                   in (errs, to_schema, tr'))
             else create_schema env errors target_rdbms target_schema tr1)
      in if py_truthy to_schema1
         then
           (let (native_ordinal, reference_ordinal) =
                  establish_equivalences env source_rdbms target_rdbms;
                (errors2, tables, result) =
                  foldl (setup_target env source_rdbms target_rdbms native_ordinal
                           reference_ordinal (the to_schema1))
                    (errors1, [], []) source_tables
            in case create_all env tr2 target_rdbms tables of
                 None \<Rightarrow> (errors2, result, tr2 @ [CreateAll target_rdbms tables])
               | Some exc \<Rightarrow> (errors2 @ [ValidateError 104 [exc]], result,
                              tr2 @ [CreateAll target_rdbms tables]))
         else (errors1 @ [ValidateError 104
                 [''unable to create schema in RDBMS '' @ target_rdbms, ''@to-schema'']],
               [], tr2))"

text \<open>
  Lines 133 to 143: the tables that are not wanted are removed from the metadata; with
  no list of wanted tables the metadata stays as it is.
\<close>

definition purge_spare_tables :: "env \<Rightarrow> table list \<Rightarrow> string list \<Rightarrow> table list" where
  "purge_spare_tables env metadata data_tables =
     (if data_tables \<noteq> []
      then (let spare_tables =
                  filter (\<lambda>spare_table. tab_name spare_table \<notin> set data_tables)
                    (sorted_tables env metadata)
            in filter (\<lambda>t. t \<notin> set spare_tables) metadata)
      else metadata)"

definition migrate_metadata ::
  "env \<Rightarrow> error list \<Rightarrow> string \<Rightarrow> string \<Rightarrow> string \<Rightarrow> string \<Rightarrow> string list \<Rightarrow> event list
     \<Rightarrow> error list \<times> migrated_table list \<times> event list" where
  "migrate_metadata env errors source_rdbms target_rdbms source_schema target_schema
       data_tables tr =
     (let (errors1, source_engine, tr1) = build_engine env errors source_rdbms tr;
          (errors2, target_engine, tr2) = build_engine env errors1 target_rdbms tr1
      in if source_engine \<and> target_engine
         then
           (let from_schema = find_schema source_schema (get_schema_names env tr2 source_rdbms);
                tr3 = tr2 @ [GetSchemaNames source_rdbms]
            in if py_truthy from_schema
               then
                 (let metadata = reflect env tr3 source_rdbms (the from_schema);
                      tr4 = tr3 @ [Reflect source_rdbms (the from_schema)];
                      unlisted_tables =
                        (if data_tables \<noteq> []
                         then filter (\<lambda>spare_table. spare_table \<notin>
                                        set (map tab_name (sorted_tables env metadata)))
                                data_tables
                         else [])
                  in if length unlisted_tables = 0
                     then materialize env errors2 source_rdbms target_rdbms target_schema
                            (sorted_tables env (purge_spare_tables env metadata data_tables)) tr4
                     else (errors2 @ [ValidateError 119
                             [join '', '' unlisted_tables,
                              ''not found in '' @ source_rdbms @ ''/'' @ source_schema,
                              ''@tables'']],
                           [], tr4))
               else (errors2 @ [ValidateError 119
                       [source_schema, ''schema not found in RDBMS '' @ source_rdbms,
                        ''@from-schema'']],
                     [], tr3))
         else (errors2, [], tr2))"

text \<open>
  \<open>build_bulk_select_stmt\<close> and \<open>build_bulk_insert_stmt\<close>: the column names are joined,
  which raises \<open>TypeError\<close> when one of them is \<open>None\<close>, and the engine's module is
  asked for the statement. The branch for \<open>mysql\<close> is empty, and an engine that matches
  no branch leaves the result \<open>None\<close> as well. The module \<open>pydb_oracle\<close> of the sources
  defines neither function, so the branch for \<open>oracle\<close> raises \<open>AttributeError\<close>.
\<close>

definition build_bulk_select_stmt ::
  "string \<Rightarrow> string \<Rightarrow> string \<Rightarrow> string option list \<Rightarrow> nat \<Rightarrow> nat \<Rightarrow> exn + stmt option" where
  "build_bulk_select_stmt rdbms schema table columns offset batch_size =
     (case those columns of
        None \<Rightarrow> Inl (TypeError ''sequence item: expected str instance, NoneType found'')
      | Some names \<Rightarrow>
          (let columns_str = join '', '' names
           in if rdbms = ''mysql'' then Inr None
              else if rdbms = ''oracle''
                then Inl (AttributeError
                       ''module pydb_oracle has no attribute build_bulk_select_stmt'')
              else if rdbms = ''postgres''
                then Inr (Some (BulkSelectStmt ''postgres'' schema table columns_str offset
                                  batch_size))
              else if rdbms = ''sqlserver''
                then Inr (Some (BulkSelectStmt ''sqlserver'' schema table columns_str offset
                                  batch_size))
              else Inr None))"

definition build_bulk_insert_stmt ::
  "string \<Rightarrow> string \<Rightarrow> string \<Rightarrow> string option list \<Rightarrow> exn + stmt option" where
  "build_bulk_insert_stmt rdbms schema table columns =
     (case those columns of
        None \<Rightarrow> Inl (TypeError ''sequence item: expected str instance, NoneType found'')
      | Some names \<Rightarrow>
          (let columns_str = join '', '' names
           in if rdbms = ''mysql'' then Inr None
              else if rdbms = ''oracle''
                then Inl (AttributeError
                       ''module pydb_oracle has no attribute build_bulk_insert_stmt'')
              else if rdbms = ''postgres''
                then Inr (Some (BulkInsertStmt ''postgres'' schema table columns_str))
              else if rdbms = ''sqlserver''
                then Inr (Some (BulkInsertStmt ''sqlserver'' schema table columns_str))
              else Inr None))"



text \<open>
  The list comprehension at lines 272 to 274: the names of the columns whose
  \<open>source_type\<close> entry is not a large binary type. An element is what
  \<open>column.get("name")\<close> returns.
\<close>

definition column_names :: "env \<Rightarrow> (string \<rightharpoonup> string) list \<Rightarrow> string option list" where
  "column_names env table_columns =
     map (\<lambda>column. column ''name'')
       (filter (\<lambda>column. \<not> is_large_binary env (column ''source_type'')) table_columns)"

text \<open>The variables of the \<open>while\<close> loop of \<open>migrate_plain_data\<close>, with the calls made so far.\<close>

record copy_state =
  cs_offset :: nat
  cs_migrated_count :: nat
  cs_op_errors :: "error list"
  cs_bulk_data :: "row list"
  cs_trace :: "event list"

text \<open>
  The \<open>while\<close> loop at lines 288 to 310. Nothing bounds the number of batches a source
  may return, so the loop is a partial function: \<open>None\<close> stands for a run that never
  leaves the loop. A run that leaves it by an exception gives the exception and the
  calls made by then.
\<close>

partial_function (option) copy_loop ::
  "env \<Rightarrow> string \<Rightarrow> string \<Rightarrow> string \<Rightarrow> string \<Rightarrow> string option list \<Rightarrow> stmt option
     \<Rightarrow> copy_state \<Rightarrow> ((exn \<times> event list) + copy_state) option" where
  "copy_loop env source_rdbms target_rdbms source_schema table columns insert_stmt st =
     (if cs_op_errors st = [] \<and> cs_bulk_data st \<noteq> []
      then
        (let ins_errors = db_bulk_insert env (cs_trace st) target_rdbms insert_stmt
                            (cs_bulk_data st);
             op_errors1 = cs_op_errors st @ ins_errors;
             tr1 = cs_trace st @ [DbBulkInsert target_rdbms insert_stmt (cs_bulk_data st)
                                    ins_errors]
         in if length op_errors1 > 0
            then Some (Inr (st\<lparr>cs_op_errors := op_errors1, cs_trace := tr1\<rparr>))
            else
              (let migrated_count = cs_migrated_count st + length (cs_bulk_data st);
                   offset = cs_offset st + length (cs_bulk_data st)
               in case build_bulk_select_stmt source_rdbms source_schema table columns
                         offset (MIGRATION_BATCH_SIZE env) of
                    Inl e \<Rightarrow> Some (Inl (e, tr1))
                  | Inr sel_stmt \<Rightarrow>
                      (let sel = db_select_all env tr1 source_rdbms sel_stmt
                       in copy_loop env source_rdbms target_rdbms source_schema table columns
                            insert_stmt
                            \<lparr>cs_offset = offset, cs_migrated_count = migrated_count,
                             cs_op_errors = op_errors1 @ snd sel, cs_bulk_data = fst sel,
                             cs_trace = tr1 @ [DbSelectAll source_rdbms sel_stmt (fst sel)
                                                 (snd sel)]\<rparr>)))
      else Some (Inr st))"

text \<open>
  The body of the \<open>for\<close> loop of \<open>migrate_plain_data\<close>, lines 264 to 318, for one
  migrated table. The first \<open>db_select_all\<close> is given the list \<open>errors\<close>, the later
  ones the table's own list \<open>op_errors\<close>.
\<close>

definition migrate_plain_table ::
  "env \<Rightarrow> error list \<Rightarrow> string \<Rightarrow> string \<Rightarrow> string \<Rightarrow> string \<Rightarrow> migrated_table
     \<Rightarrow> event list
     \<Rightarrow> ((exn \<times> event list) + (error list \<times> migrated_table \<times> event list)) option" where
  "migrate_plain_table env errors source_rdbms target_rdbms source_schema target_schema
       migrated_table tr =
     (let table = mt_table migrated_table;
          columns = column_names env (mt_columns migrated_table)
      in case build_bulk_insert_stmt target_rdbms target_schema table columns of
           Inl e \<Rightarrow> Some (Inl (e, tr))
         | Inr insert_stmt \<Rightarrow>
             (case build_bulk_select_stmt source_rdbms source_schema table columns 0
                     (MIGRATION_BATCH_SIZE env) of
                Inl e \<Rightarrow> Some (Inl (e, tr))
              | Inr sel_stmt \<Rightarrow>
                  (let sel = db_select_all env tr source_rdbms sel_stmt;
                       errors1 = errors @ snd sel
                   in case copy_loop env source_rdbms target_rdbms source_schema table columns
                             insert_stmt
                             \<lparr>cs_offset = 0, cs_migrated_count = 0, cs_op_errors = [],
                              cs_bulk_data = fst sel,
                              cs_trace = tr @ [DbSelectAll source_rdbms sel_stmt (fst sel)
                                                 (snd sel)]\<rparr> of
                        None \<Rightarrow> None
                      | Some (Inl raised) \<Rightarrow> Some (Inl raised)
                      | Some (Inr st) \<Rightarrow>
                          (if cs_op_errors st \<noteq> []
                           then Some (Inr (errors1 @ cs_op_errors st,
                                  migrated_table\<lparr>mt_status := (if cs_migrated_count st \<noteq> 0
                                                                 then ''partial'' else ''none''),
                                                 mt_count := cs_migrated_count st\<rparr>,
                                  cs_trace st))
                           else Some (Inr (errors1,
                                  migrated_table\<lparr>mt_status := ''full'',
                                                 mt_count := cs_migrated_count st\<rparr>,
                                  cs_trace st))))))"



section \<open>migration/steps/pydb_metadata\<close>

text \<open>
  \<open>s.replace(old, new)\<close>: the occurrences of \<open>old\<close> are replaced from left to right,
  without overlap; an empty \<open>old\<close> matches before every character and at the end.
\<close>

function replace :: "string \<Rightarrow> string \<Rightarrow> string \<Rightarrow> string" where
  "replace [] old new = (if old = [] then new else [])"
| "replace (c # cs) old new =
     (if old = [] then new @ c # replace cs old new
      else if prefix old (c # cs) then new @ replace (drop (length old) (c # cs)) old new
      else c # replace cs old new)"
  by pat_completeness auto
termination
  by (relation "measure (\<lambda>(s, old, new). length s)") auto

definition dquote :: string where
  "dquote = [CHR 0x22]"

text \<open>
  What this module takes from outside: sqlalchemy, pypomes_db, pypomes_core and the
  modules \<open>pydb_engine\<close> and \<open>pydb_migration\<close> of the package, which the sources at hand
  do not include. As above, a call that reaches a database answers as a function of the
  calls made so far. The result of \<open>migrate_tables\<close> is handed through unread, so its
  type is left open.
  \<^item> \<open>engine_build_engine\<close>: the errors \<open>pydb_engine.build_engine\<close> appends and whether
    it returns an engine;
  \<^item> \<open>reflect_views\<close>: the \<open>SAWarning\<close> raised by \<open>reflect\<close>, if any, and the tables
    of the metadata;
  \<^item> \<open>sorted_tables_views\<close>: the \<open>SAWarning\<close> raised by \<open>sorted_tables\<close> (\<open>Inl\<close>) or
    the sorted tables;
  \<^item> \<open>migrate_schema\<close>: the errors appended and the schema returned;
  \<^item> \<open>migrate_tables\<close>: the errors appended and the result;
  \<^item> \<open>db_get_view_script\<close>: the errors appended and the script;
  \<^item> \<open>db_execute\<close>: the errors appended;
  \<^item> \<open>create_table\<close>: the exception raised by \<open>create_all\<close> for one table, if any.
\<close>

record 'r steps_env =
  engine_build_engine :: "event list \<Rightarrow> string \<Rightarrow> error list \<times> bool"
  inspector_schema_names :: "event list \<Rightarrow> string \<Rightarrow> string list"
  get_view_names :: "event list \<Rightarrow> string \<Rightarrow> string list"
  get_materialized_view_names :: "event list \<Rightarrow> string \<Rightarrow> string list"
  reflect_views :: "event list \<Rightarrow> string \<Rightarrow> string \<Rightarrow> string option \<times> table list"
  sorted_tables_views :: "table list \<Rightarrow> string + table list"
  migrate_schema :: "event list \<Rightarrow> string \<Rightarrow> string \<Rightarrow> table list \<Rightarrow> string list
                       \<Rightarrow> string list \<Rightarrow> bool \<Rightarrow> bool \<Rightarrow> error list \<times> string option"
  migrate_tables :: "event list \<Rightarrow> string \<Rightarrow> string \<Rightarrow> string \<Rightarrow> table list
                       \<Rightarrow> (string \<rightharpoonup> string) \<Rightarrow> error list \<times> 'r"
  db_get_view_script :: "event list \<Rightarrow> string \<Rightarrow> string \<Rightarrow> string \<Rightarrow> error list \<times> string"
  db_execute :: "event list \<Rightarrow> string \<Rightarrow> string \<Rightarrow> error list"
  create_table :: "event list \<Rightarrow> string \<Rightarrow> table \<Rightarrow> string option"
  str_sanitize :: "string \<Rightarrow> string"

text \<open>
  \<open>migrate_view\<close>: the script of the view is read from the source, rewritten and
  executed on the target. The parameters come in the order of the signature.
\<close>

definition migrate_view ::
  "'r steps_env \<Rightarrow> error list \<Rightarrow> string \<Rightarrow> string \<Rightarrow> string \<Rightarrow> string \<Rightarrow> string \<Rightarrow> string
     \<Rightarrow> event list \<Rightarrow> error list \<times> event list" where
  "migrate_view env errors view_name view_type source_rdbms source_schema target_rdbms
       target_schema tr =
     (let got = db_get_view_script env tr view_type (target_schema @ ''.'' @ view_name)
                  source_rdbms;
          errors1 = errors @ fst got;
          tr1 = tr @ [DbGetViewScript view_type (target_schema @ ''.'' @ view_name) source_rdbms]
      in if errors1 = []
         then
           (let view_script1 =
                  replace
                    (replace (lower (snd got)) (source_schema @ ''.'') (target_schema @ ''.''))
                    (dquote @ source_schema @ dquote @ ''.'')
                    (dquote @ target_schema @ dquote @ ''.'');
                view_script2 = (if source_rdbms = ''oracle''
                                then replace view_script1 ''force editionable '' ''''
                                else view_script1);
                errors2 = errors1 @ db_execute env tr1 view_script2 target_rdbms;
                tr2 = tr1 @ [DbExecute target_rdbms view_script2]
            in if errors2 \<noteq> []
               then (ValidateError 101
                       [''Failed: '' @ [CHR 0x27] @ str_sanitize env view_script2 @ [CHR 0x27]]
                     # errors2, tr2)
               else (errors2, tr2))
         else (errors1, tr1))"





section \<open>Reading the calls of a run\<close>

text \<open>
  What the theorems below read off the list of calls: whether a call is one of the two
  data calls of the batch loop; the sizes of the batches that were committed (a
  \<open>db_bulk_insert\<close> that appended no error); whether every bulk \<open>SELECT\<close> asks for the
  offset that equals the number of rows committed before it, starting from a given
  number; whether every \<open>db_bulk_insert\<close> is given the rows that the latest
  \<open>db_select_all\<close> before it returned, starting from given rows.
\<close>

fun is_data_call :: "event \<Rightarrow> bool" where
  "is_data_call (DbSelectAll rdbms sel_stmt rows errs) = True"
| "is_data_call (DbBulkInsert rdbms insert_stmt rows errs) = True"
| "is_data_call e = False"

fun committed_sizes :: "event list \<Rightarrow> nat list" where
  "committed_sizes [] = []"
| "committed_sizes (DbBulkInsert rdbms insert_stmt rows errs # tr) =
     (if errs = [] then length rows # committed_sizes tr else committed_sizes tr)"
| "committed_sizes (e # tr) = committed_sizes tr"

fun paged_from :: "nat \<Rightarrow> event list \<Rightarrow> bool" where
  "paged_from committed [] = True"
| "paged_from committed (DbBulkInsert rdbms insert_stmt rows errs # tr) =
     paged_from (if errs = [] then committed + length rows else committed) tr"
| "paged_from committed
     (DbSelectAll rdbms (Some (BulkSelectStmt engine schema table columns offset batch_size))
        rows errs # tr) =
     (offset = committed \<and> paged_from committed tr)"
| "paged_from committed (e # tr) = paged_from committed tr"

fun inserts_fetched :: "row list \<Rightarrow> event list \<Rightarrow> bool" where
  "inserts_fetched fetched [] = True"
| "inserts_fetched fetched (DbSelectAll rdbms sel_stmt rows errs # tr) = inserts_fetched rows tr"
| "inserts_fetched fetched (DbBulkInsert rdbms insert_stmt rows errs # tr) =
     (rows = fetched \<and> inserts_fetched fetched tr)"
| "inserts_fetched fetched (e # tr) = inserts_fetched fetched tr"

declare copy_loop.simps [code]

section \<open>A sample world\<close>

text \<open>
  A source schema \<open>hr\<close> on SQL Server with the table \<open>persons\<close> as it is
  reflected (the declared default of a column is its server default), seven rows in
  it, and a target on PostgreSQL where the schema \<open>hr\<close> exists. Every call succeeds; a batch has
  three rows. The theorems below use this world, and variants of it, where they need a
  concrete one.
\<close>

definition persons :: table where
  "persons =
     \<lparr>tab_name = ''persons'', tab_schema = Some ''hr'',
      tab_columns =
        [\<lparr>col_name = ''id'', col_type = ''INTEGER'', col_server_default = None,
          col_default = None\<rparr>,
         \<lparr>col_name = ''created'', col_type = ''DATE'', col_server_default = Some ''getdate()'',
          col_default = None\<rparr>,
         \<lparr>col_name = ''photo'', col_type = ''BLOB'', col_server_default = None,
          col_default = None\<rparr>],
      tab_indexes = []\<rparr>"

definition persons_rows :: "row list" where
  "persons_rows = [[''1''], [''2''], [''3''], [''4''], [''5''], [''6''], [''7'']]"

definition sample_select :: "stmt option \<Rightarrow> row list \<times> error list" where
  "sample_select sel_stmt =
     (case sel_stmt of
        Some (BulkSelectStmt engine schema table columns offset batch_size) \<Rightarrow>
          (take batch_size (drop offset persons_rows), [])
      | _ \<Rightarrow> ([], [LibraryError ''no statement'']))"

definition sample_env :: env where
  "sample_env =
     \<lparr>create_engine = (\<lambda>tr rdbms. None),
      get_connection_params = (\<lambda>rdbms. ([], [''user'' \<mapsto> ''admin''])),
      get_schema_names = (\<lambda>tr rdbms. [''sys'', ''hr'']),
      reflect = (\<lambda>tr rdbms schema. [persons]),
      sorted_tables = (\<lambda>tables. tables),
      execute = (\<lambda>tr rdbms stmt. None),
      create_all = (\<lambda>tr rdbms tables. None),
      establish_equivalences = (\<lambda>source_rdbms target_rdbms. (0, 0)),
      migrate_type = (\<lambda>source_rdbms target_rdbms native_ordinal reference_ordinal column.
                        if col_type column = ''BLOB'' then ''BYTEA'' else col_type column),
      is_large_binary = (\<lambda>source_type. source_type = Some ''BLOB''),
      db_connect = (\<lambda>tr rdbms. ([], True)),
      engine_disable_session_restrictions = (\<lambda>tr rdbms. []),
      engine_restore_session_restrictions = (\<lambda>tr rdbms. []),
      db_select_all = (\<lambda>tr rdbms sel_stmt. sample_select sel_stmt),
      db_bulk_insert = (\<lambda>tr rdbms insert_stmt rows. []),
      MIGRATION_BATCH_SIZE = 3\<rparr>"



text \<open>The entry that \<open>migrate_metadata\<close> returns for \<open>persons\<close> in the sample world.\<close>

definition persons_entry :: migrated_table where
  "persons_entry =
     \<lparr>mt_table = ''persons'',
      mt_columns =
        [[''name'' \<mapsto> ''id'', ''source-type'' \<mapsto> ''INTEGER'', ''target-type'' \<mapsto> ''INTEGER''],
         [''name'' \<mapsto> ''created'', ''source-type'' \<mapsto> ''DATE'', ''target-type'' \<mapsto> ''DATE''],
         [''name'' \<mapsto> ''photo'', ''source-type'' \<mapsto> ''BLOB'', ''target-type'' \<mapsto> ''BYTEA'']],
      mt_count = 0, mt_status = ''none''\<rparr>"

text \<open>The sample world with a source that fails every \<open>SELECT\<close>.\<close>

definition failing_select_env :: env where
  "failing_select_env =
     sample_env\<lparr>db_select_all :=
       (\<lambda>tr rdbms sel_stmt. ([], [LibraryError ''Invalid object name hr.persons'']))\<rparr>"



text \<open>
  A world for the module \<open>migration/steps/pydb_metadata\<close>: a source on SQL Server whose
  schema is named \<open>Sales\<close>, with the table \<open>persons\<close> and the view \<open>v_active\<close> over it.
\<close>

definition sample_steps_env :: "unit steps_env" where
  "sample_steps_env =
     \<lparr>engine_build_engine = (\<lambda>tr rdbms. ([], True)),
      inspector_schema_names = (\<lambda>tr rdbms. [''dbo'', ''Sales'']),
      get_view_names = (\<lambda>tr rdbms. [''v_active'']),
      get_materialized_view_names = (\<lambda>tr rdbms. []),
      reflect_views = (\<lambda>tr rdbms schema.
        (None, [persons\<lparr>tab_schema := Some ''Sales''\<rparr>,
                \<lparr>tab_name = ''v_active'', tab_schema = Some ''Sales'', tab_columns = [],
                 tab_indexes = []\<rparr>])),
      sorted_tables_views = (\<lambda>tables. Inr tables),
      migrate_schema = (\<lambda>tr target_rdbms target_schema tables plain_views mat_views
                          process_views process_mviews. ([], Some target_schema)),
      migrate_tables = (\<lambda>tr source_rdbms target_rdbms source_schema tables external_columns.
                          ([], ())),
      db_get_view_script = (\<lambda>tr view_type view_name engine.
        ([], ''CREATE VIEW Sales.v_active AS SELECT id FROM Sales.persons'')),
      db_execute = (\<lambda>tr stmt engine. []),
      create_table = (\<lambda>tr rdbms t. None),
      str_sanitize = (\<lambda>s. s)\<rparr>"

text \<open>
  The sample world with a source whose connection is lost after the second batch has
  been committed: from then on every \<open>SELECT\<close> answers with an error and no rows.
\<close>

definition interrupted_env :: env where
  "interrupted_env =
     sample_env\<lparr>db_select_all :=
       (\<lambda>tr rdbms sel_stmt.
          if length (committed_sizes tr) \<ge> 2
          then ([], [LibraryError ''connection lost''])
          else sample_select sel_stmt)\<rparr>"

section \<open>Properties of pydb_oracle\<close>

lemma py_int_digits:
  "p \<noteq> [] \<Longrightarrow> list_all is_digit p \<Longrightarrow> length p \<le> 4300 \<Longrightarrow> py_int p = Inr (decimal_value p)"
  by (simp add: py_int_def)

lemma digits_numeric_chars:
  "list_all is_digit p \<Longrightarrow> list_all is_numeric_char p"
  by (induction p) (simp_all add: is_numeric_char_def)

lemma digits_isnumeric:
  "p \<noteq> [] \<Longrightarrow> list_all is_digit p \<Longrightarrow> isnumeric p"
  by (simp add: isnumeric_def digits_numeric_chars)

text \<open>
  C10, as amended. Whatever a call of the Oracle \<open>set_connection_params\<close> leaves
  behind, if it has recorded at least one error (the list of errors is not the one
  given) then the stored name, user, password, host and client are as they were. The
  stored port is the supplied one whenever \<open>db-port\<close> is a string of one to 4300
  decimal digits, whether or not an error was recorded in the same call.
\<close>

theorem set_connection_params_frame:
  assumes "left_behind (set_connection_params errors scheme g) = (errors', g')"
  shows "(errors' \<noteq> errors \<longrightarrow>
            ORCL_DB_NAME g' = ORCL_DB_NAME g \<and> ORCL_DB_USER g' = ORCL_DB_USER g \<and>
            ORCL_DB_PWD g' = ORCL_DB_PWD g \<and> ORCL_DB_HOST g' = ORCL_DB_HOST g \<and>
            ORCL_DB_CLIENT g' = ORCL_DB_CLIENT g) \<and>
         (\<forall>p. scheme ''db-port'' = Some p \<and> p \<noteq> [] \<and> list_all is_digit p \<and> length p \<le> 4300 \<longrightarrow>
              set_connection_params errors scheme g = Inr (errors', g') \<and>
              ORCL_DB_PORT g' = Some (decimal_value p))"
proof -
  have frame: "ORCL_DB_NAME g' = ORCL_DB_NAME g \<and> ORCL_DB_USER g' = ORCL_DB_USER g \<and>
            ORCL_DB_PWD g' = ORCL_DB_PWD g \<and> ORCL_DB_HOST g' = ORCL_DB_HOST g \<and>
            ORCL_DB_CLIENT g' = ORCL_DB_CLIENT g"
    if ne: "errors' \<noteq> errors"
    using assms ne
    by (cases "py_truthy (scheme ''db-driver'')"; cases "py_truthy (scheme ''db-port'')";
        cases "isnumeric (the (scheme ''db-port''))"; cases "errors = []";
        cases "py_int (the (scheme ''db-port''))";
        auto simp: set_connection_params_def left_behind_def Let_def)
  have port: "set_connection_params errors scheme g = Inr (errors', g') \<and>
              ORCL_DB_PORT g' = Some (decimal_value p)"
    if p: "scheme ''db-port'' = Some p \<and> p \<noteq> [] \<and> list_all is_digit p \<and> length p \<le> 4300" for p
  proof -
    from p have t: "py_truthy (scheme ''db-port'')" "isnumeric (the (scheme ''db-port''))"
      "py_int (the (scheme ''db-port'')) = Inr (decimal_value p)"
      by (simp_all add: py_truthy_def digits_isnumeric py_int_digits)
    show ?thesis
      using assms t p
      by (cases "py_truthy (scheme ''db-driver'')"; cases "errors = []";
          auto simp: set_connection_params_def left_behind_def Let_def)
  qed
  from frame port show ?thesis by blast
qed

theorem set_connection_params_frame_witness:
  "left_behind
     (set_connection_params []
        [''db-driver'' \<mapsto> ''odbc'', ''db-port'' \<mapsto> ''1521'', ''db-name'' \<mapsto> ''orcl'']
        stored_params) =
     ([ValidateError 113 [''Oracle'', ''@db-driver'']], stored_params\<lparr>ORCL_DB_PORT := Some 1521\<rparr>) \<and>
   ORCL_DB_NAME (stored_params\<lparr>ORCL_DB_PORT := Some 1521\<rparr>) = ORCL_DB_NAME stored_params \<and>
   list_all is_digit ''1521'' \<and>
   set_connection_params []
     [''db-driver'' \<mapsto> ''odbc'', ''db-port'' \<mapsto> ''1521'', ''db-name'' \<mapsto> ''orcl'']
     stored_params =
     Inr ([ValidateError 113 [''Oracle'', ''@db-driver'']],
          stored_params\<lparr>ORCL_DB_PORT := Some 1521\<rparr>) \<and>
   decimal_value ''1521'' = 1521"
proof -
  have run: "left_behind
     (set_connection_params []
        [''db-driver'' \<mapsto> ''odbc'', ''db-port'' \<mapsto> ''1521'', ''db-name'' \<mapsto> ''orcl'']
        stored_params) =
     ([ValidateError 113 [''Oracle'', ''@db-driver'']], stored_params\<lparr>ORCL_DB_PORT := Some 1521\<rparr>)"
    by (simp add: set_connection_params_def left_behind_def py_truthy_def isnumeric_def
                  is_numeric_char_def is_digit_def py_int_def decimal_value_def digit_val_def
                  stored_params_def)
  have digits: "list_all is_digit ''1521''" "decimal_value ''1521'' = 1521"
    by (simp_all add: is_digit_def decimal_value_def digit_val_def)
  from set_connection_params_frame [OF run] run digits show ?thesis
    by simp
qed

text \<open>
  C10 as it was stated fails: the string made of the superscript two passes
  \<open>isnumeric\<close>, so it is a numeric \<open>db-port\<close> for the code, and \<open>int\<close> raises
  \<open>ValueError\<close> on it. The call ends there and no port is stored.
\<close>

theorem set_connection_params_superscript_port:
  "isnumeric [CHR 0xB2] \<and>
   set_connection_params [] [''db-port'' \<mapsto> [CHR 0xB2]] stored_params =
     Inl (ValueError [CHR 0xB2], [], stored_params) \<and>
   ORCL_DB_PORT stored_params = None"
  by (simp add: set_connection_params_def py_truthy_def isnumeric_def is_numeric_char_def
                is_digit_def py_int_def stored_params_def)

section \<open>Properties of setup_target_table\<close>





section \<open>Properties of the plain data phase\<close>

lemma migrate_metadata_sample:
  "fst (snd (migrate_metadata sample_env [] ''sqlserver'' ''postgres'' ''hr'' ''hr'' [] [])) =
     [persons_entry]"
  by (simp add: migrate_metadata_def materialize_def build_engine_def find_schema_def lower_def
                char_lower_def py_truthy_def setup_target_def setup_target_table_def
                setup_target_column_def engine_exc_stmt_def column_data_def
                purge_spare_tables_def Let_def sample_env_def persons_def persons_entry_def)

text \<open>
  C1 fails on the code where the first \<open>SELECT\<close> of a table fails. In the sample world
  with a source that answers every \<open>SELECT\<close> with an error and no rows, the table
  \<open>persons\<close> ends with status \<open>full\<close> and count 0, and the error is in the list of
  errors: the first \<open>db_select_all\<close> appends to \<open>errors\<close>, not to \<open>op_errors\<close>, which
  alone decides the status.
\<close>

theorem migrate_plain_table_failed_select_full:
  "map_option (map_sum id (\<lambda>(errors, migrated_table, tr).
                              (errors, mt_status migrated_table, mt_count migrated_table)))
     (migrate_plain_table failing_select_env [] ''sqlserver'' ''postgres'' ''hr'' ''hr''
        persons_entry []) =
   Some (Inr ([LibraryError ''Invalid object name hr.persons''], ''full'', 0))"
  by (simp add: migrate_plain_table_def copy_loop.simps build_bulk_select_stmt_def
                build_bulk_insert_stmt_def column_names_def failing_select_env_def
                sample_env_def persons_entry_def Let_def)

text \<open>
  C2 fails on the code. The dictionaries of \<open>migrate_metadata\<close> keep the source type
  under the key \<open>source-type\<close>, and \<open>migrate_plain_data\<close> reads the key \<open>source_type\<close>,
  which no dictionary has: \<open>is_large_binary\<close> is asked about \<open>None\<close> for every column.
  In the sample world, where \<open>BLOB\<close> is a large binary type, the column \<open>photo\<close> of type
  \<open>BLOB\<close> is in the list of the plain columns.
\<close>

theorem column_names_keep_lob:
  "is_large_binary sample_env (Some ''BLOB'') \<and>
   (mt_columns persons_entry ! 2) ''source-type'' = Some ''BLOB'' \<and>
   column_names sample_env (mt_columns persons_entry) =
     [Some ''id'', Some ''created'', Some ''photo'']"
  by (simp add: column_names_def sample_env_def persons_entry_def)

section \<open>Properties of migrate_view\<close>

text \<open>
  C8 fails on the code where the name of the source schema has an upper-case letter.
  The script is turned to lower case before the replacement, the schema name that is
  looked for is not: in the sample world the schema is \<open>Sales\<close> and the script that is
  executed on the target still says \<open>sales.\<close> where the claim wants \<open>public.\<close>.
\<close>

theorem migrate_view_mixed_case_schema:
  "snd (db_get_view_script sample_steps_env [] ''P'' ''public.v_active'' ''sqlserver'') =
     ''CREATE VIEW Sales.v_active AS SELECT id FROM Sales.persons'' \<and>
   migrate_view sample_steps_env [] ''v_active'' ''P'' ''sqlserver'' ''Sales''
     ''postgres'' ''public'' [] =
     ([], [DbGetViewScript ''P'' ''public.v_active'' ''sqlserver'',
           DbExecute ''postgres''
             ''create view sales.v_active as select id from sales.persons''])"
  by (simp add: migrate_view_def sample_steps_env_def lower_def char_lower_def dquote_def)

section \<open>Properties of migrate_metadata\<close>














section \<open>Properties of migration/steps/pydb_metadata\<close>








section \<open>Properties of the batch loop\<close>

lemma committed_sizes_append:
  "committed_sizes (xs @ ys) = committed_sizes xs @ committed_sizes ys"
  by (induction xs rule: committed_sizes.induct) simp_all

lemma paged_from_append:
  "paged_from c (xs @ ys) =
     (paged_from c xs \<and> paged_from (c + sum_list (committed_sizes xs)) ys)"
  by (induction c xs rule: paged_from.induct) (simp_all add: add.assoc)

lemma build_bulk_select_stmt_offset:
  assumes "build_bulk_select_stmt rdbms schema table columns offset batch_size =
             Inr (Some (BulkSelectStmt engine schema' table' columns' offset' batch_size'))"
  shows "offset' = offset"
  using assms
  by (cases "those columns")
     (auto simp: build_bulk_select_stmt_def Let_def split: if_splits)

lemma paged_from_select:
  assumes "build_bulk_select_stmt rdbms schema table columns offset batch_size = Inr sel_stmt"
  shows "paged_from offset (DbSelectAll source sel_stmt rows errs # tr) = paged_from offset tr"
proof (cases sel_stmt)
  case None
  then show ?thesis by simp
next
  case (Some stmt)
  show ?thesis
  proof (cases stmt)
    case (BulkSelectStmt engine schema' table' columns' offset' batch_size')
    with Some assms have "offset' = offset"
      using build_bulk_select_stmt_offset by blast
    with Some BulkSelectStmt show ?thesis by simp
  next
    case (BulkInsertStmt engine schema' table' columns')
    with Some show ?thesis by simp
  qed
qed

text \<open>
  What holds of every run of the loop that leaves it without an exception: the calls
  it has added are data calls, the count has grown by the rows of the committed
  batches, every \<open>SELECT\<close> of the loop asked for the offset the loop started from
  plus the rows committed in the loop before it, and every insertion was given the rows
  of the latest \<open>SELECT\<close>.
\<close>

lemma copy_loop_returns:
  assumes "copy_loop env source_rdbms target_rdbms source_schema table columns insert_stmt st =
             Some r"
  shows "\<forall>st'. r = Inr st' \<longrightarrow>
           (\<exists>new. cs_trace st' = cs_trace st @ new \<and> list_all is_data_call new \<and>
                  inserts_fetched (cs_bulk_data st) new \<and>
                  cs_migrated_count st' =
                    cs_migrated_count st + sum_list (committed_sizes new) \<and>
                  paged_from (cs_offset st) new)"
  using assms
proof (induction rule: copy_loop.raw_induct [rotated 1, consumes 1])
  case (1 copy_loop' env source_rdbms target_rdbms source_schema table columns insert_stmt st r)
  note IH = "1"(1) and body = "1"(2)
  show ?case
  proof (cases "cs_op_errors st = [] \<and> cs_bulk_data st \<noteq> []")
    case False
    with body have "r = Inr st" by auto
    then show ?thesis by auto
  next
    case True
    define ins_errors where
      "ins_errors = db_bulk_insert env (cs_trace st) target_rdbms insert_stmt (cs_bulk_data st)"
    define ins where
      "ins = DbBulkInsert target_rdbms insert_stmt (cs_bulk_data st) ins_errors"
    show ?thesis
    proof (cases "ins_errors = []")
      case False
      with body True have "r = Inr (st\<lparr>cs_op_errors := cs_op_errors st @ ins_errors,
                                        cs_trace := cs_trace st @ [ins]\<rparr>)"
        by (simp add: Let_def ins_errors_def ins_def)
      with False show ?thesis
        by (auto simp: ins_def)
    next
      case committed: True
      show ?thesis
      proof (cases "build_bulk_select_stmt source_rdbms source_schema table columns
                      (cs_offset st + length (cs_bulk_data st)) (MIGRATION_BATCH_SIZE env)")
        case (Inl e)
        with body True committed have "r = Inl (e, cs_trace st @ [ins])"
          by (simp add: Let_def ins_errors_def ins_def)
        then show ?thesis by simp
      next
        case (Inr sel_stmt)
        define sel where "sel = db_select_all env (cs_trace st @ [ins]) source_rdbms sel_stmt"
        define fetched where
          "fetched = DbSelectAll source_rdbms sel_stmt (fst sel) (snd sel)"
        define st2 where
          "st2 = \<lparr>cs_offset = cs_offset st + length (cs_bulk_data st),
                  cs_migrated_count = cs_migrated_count st + length (cs_bulk_data st),
                  cs_op_errors = snd sel, cs_bulk_data = fst sel,
                  cs_trace = cs_trace st @ [ins] @ [fetched]\<rparr>"
        from body True committed Inr
        have rec: "copy_loop' env source_rdbms target_rdbms source_schema table columns
                     insert_stmt st2 = Some r"
          by (simp add: Let_def ins_errors_def ins_def sel_def fetched_def st2_def)
        show ?thesis
        proof (intro allI impI)
          fix st' assume r: "r = Inr st'"
          from IH [OF rec] r obtain new where
            new: "cs_trace st' = cs_trace st2 @ new" "list_all is_data_call new"
              "cs_migrated_count st' = cs_migrated_count st2 + sum_list (committed_sizes new)"
              "paged_from (cs_offset st2) new" "inserts_fetched (cs_bulk_data st2) new"
            by blast
          have paged: "paged_from (cs_offset st) ([ins] @ [fetched] @ new)"
            using new(4) committed paged_from_select [OF Inr]
            by (simp add: ins_def fetched_def st2_def)
          have "cs_trace st' = cs_trace st @ ([ins] @ [fetched] @ new)"
            using new(1) by (simp add: st2_def)
          moreover have "list_all is_data_call ([ins] @ [fetched] @ new)"
            using new(2) by (simp add: ins_def fetched_def)
          moreover have "inserts_fetched (cs_bulk_data st) ([ins] @ [fetched] @ new)"
            using new(5) by (simp add: ins_def fetched_def st2_def)
          moreover have "cs_migrated_count st' =
                           cs_migrated_count st +
                           sum_list (committed_sizes ([ins] @ [fetched] @ new))"
            using new(3) committed by (simp add: ins_def fetched_def st2_def)
          ultimately show "\<exists>new. cs_trace st' = cs_trace st @ new \<and>
                             list_all is_data_call new \<and>
                             inserts_fetched (cs_bulk_data st) new \<and>
                             cs_migrated_count st' =
                               cs_migrated_count st + sum_list (committed_sizes new) \<and>
                             paged_from (cs_offset st) new"
            using paged by blast
        qed
      qed
    qed
  qed
qed

text \<open>The same for one table, and the calls of the whole phase.\<close>

lemma migrate_plain_table_calls:
  assumes "migrate_plain_table env errors source_rdbms target_rdbms source_schema target_schema
             migrated_table tr = Some (Inr (errors', migrated_table', tr'))"
  shows "\<exists>new. tr' = tr @ new \<and> list_all is_data_call new \<and> inserts_fetched [] new \<and>
           mt_count migrated_table' = sum_list (committed_sizes new) \<and> paged_from 0 new"
proof -
  define table where "table = mt_table migrated_table"
  define columns where "columns = column_names env (mt_columns migrated_table)"
  from assms obtain insert_stmt where
    ins: "build_bulk_insert_stmt target_rdbms target_schema table columns = Inr insert_stmt"
    by (cases "build_bulk_insert_stmt target_rdbms target_schema table columns")
       (auto simp: migrate_plain_table_def Let_def table_def columns_def)
  from assms ins obtain sel_stmt where
    sel: "build_bulk_select_stmt source_rdbms source_schema table columns 0
            (MIGRATION_BATCH_SIZE env) = Inr sel_stmt"
    by (cases "build_bulk_select_stmt source_rdbms source_schema table columns 0
                 (MIGRATION_BATCH_SIZE env)")
       (auto simp: migrate_plain_table_def Let_def table_def columns_def)
  define fetched where
    "fetched = DbSelectAll source_rdbms sel_stmt
                 (fst (db_select_all env tr source_rdbms sel_stmt))
                 (snd (db_select_all env tr source_rdbms sel_stmt))"
  define st where
    "st = \<lparr>cs_offset = 0, cs_migrated_count = 0, cs_op_errors = [],
            cs_bulk_data = fst (db_select_all env tr source_rdbms sel_stmt),
            cs_trace = tr @ [fetched]\<rparr>"
  from assms ins sel obtain st' where
    loop: "copy_loop env source_rdbms target_rdbms source_schema table columns insert_stmt st =
             Some (Inr st')"
    and result: "tr' = cs_trace st'" "mt_count migrated_table' = cs_migrated_count st'"
    by (cases "copy_loop env source_rdbms target_rdbms source_schema table columns insert_stmt
                 st")
       (auto simp: migrate_plain_table_def Let_def table_def columns_def st_def fetched_def
             split: sum.splits if_splits)
  from copy_loop_returns [OF loop] obtain new where
    new: "cs_trace st' = cs_trace st @ new" "list_all is_data_call new"
      "inserts_fetched (cs_bulk_data st) new"
      "cs_migrated_count st' = cs_migrated_count st + sum_list (committed_sizes new)"
      "paged_from (cs_offset st) new"
    by blast
  have "tr' = tr @ (fetched # new)"
    using new(1) result(1) by (simp add: st_def)
  moreover have "list_all is_data_call (fetched # new)"
    using new(2) by (simp add: fetched_def)
  moreover have "inserts_fetched [] (fetched # new)"
    using new(3) by (simp add: fetched_def st_def)
  moreover have "mt_count migrated_table' = sum_list (committed_sizes (fetched # new))"
    using new(4) result(2) by (simp add: fetched_def st_def)
  moreover have "paged_from 0 (fetched # new)"
    using new(5) paged_from_select [OF sel] by (simp add: fetched_def st_def)
  ultimately show ?thesis by blast
qed


text \<open>The table \<open>persons\<close> of the sample world is copied in three batches.\<close>

lemma migrate_plain_table_sample:
  "migrate_plain_table sample_env errors ''sqlserver'' ''postgres'' ''hr'' ''hr'' persons_entry tr =
     Some (Inr (errors, persons_entry\<lparr>mt_status := ''full'', mt_count := 7\<rparr>,
       tr @
       [DbSelectAll ''sqlserver''
          (Some (BulkSelectStmt ''sqlserver'' ''hr'' ''persons'' ''id, created, photo'' 0 3))
          [[''1''], [''2''], [''3'']] [],
        DbBulkInsert ''postgres''
          (Some (BulkInsertStmt ''postgres'' ''hr'' ''persons'' ''id, created, photo''))
          [[''1''], [''2''], [''3'']] [],
        DbSelectAll ''sqlserver''
          (Some (BulkSelectStmt ''sqlserver'' ''hr'' ''persons'' ''id, created, photo'' 3 3))
          [[''4''], [''5''], [''6'']] [],
        DbBulkInsert ''postgres''
          (Some (BulkInsertStmt ''postgres'' ''hr'' ''persons'' ''id, created, photo''))
          [[''4''], [''5''], [''6'']] [],
        DbSelectAll ''sqlserver''
          (Some (BulkSelectStmt ''sqlserver'' ''hr'' ''persons'' ''id, created, photo'' 6 3))
          [[''7'']] [],
        DbBulkInsert ''postgres''
          (Some (BulkInsertStmt ''postgres'' ''hr'' ''persons'' ''id, created, photo''))
          [[''7'']] [],
        DbSelectAll ''sqlserver''
          (Some (BulkSelectStmt ''sqlserver'' ''hr'' ''persons'' ''id, created, photo'' 7 3))
          [] []]))"
  by (simp add: migrate_plain_table_def copy_loop.simps build_bulk_select_stmt_def
                build_bulk_insert_stmt_def column_names_def sample_env_def sample_select_def
                persons_rows_def persons_entry_def Let_def)

text \<open>
  C3. For every table of the plain data phase whose copy ends without an exception: the
  calls it adds are data calls only, every insertion is given the rows of the latest
  \<open>SELECT\<close>, the count recorded for the table is the sum of the sizes of the committed
  batches, and every \<open>SELECT\<close> asks for the offset that equals the number of rows
  committed before it. In the sample world, with batches of three rows and seven rows in
  the source, the batches committed have 3, 3 and 1 rows and the table ends \<open>full\<close> with
  count 7; when the source is lost after the second commit, the table ends \<open>partial\<close>
  with count 6.
\<close>

theorem committed_batches_counted:
  "(migrate_plain_table env errors source_rdbms target_rdbms source_schema target_schema
      migrated_table tr = Some (Inr (errors', migrated_table', tr')) \<longrightarrow>
      (\<exists>calls. tr' = tr @ calls \<and> list_all is_data_call calls \<and>
               inserts_fetched [] calls \<and>
               mt_count migrated_table' = sum_list (committed_sizes calls) \<and>
               paged_from 0 calls)) \<and>
   (\<exists>calls. migrate_plain_table sample_env [] ''sqlserver'' ''postgres'' ''hr'' ''hr''
               persons_entry [] =
               Some (Inr ([], persons_entry\<lparr>mt_status := ''full'', mt_count := 7\<rparr>, calls)) \<and>
            committed_sizes calls = [3, 3, 1]) \<and>
   (\<exists>calls. migrate_plain_table interrupted_env [] ''sqlserver'' ''postgres'' ''hr'' ''hr''
               persons_entry [] =
               Some (Inr ([LibraryError ''connection lost''],
                          persons_entry\<lparr>mt_status := ''partial'', mt_count := 6\<rparr>, calls)) \<and>
            committed_sizes calls = [3, 3])"
proof (intro conjI impI)
  assume "migrate_plain_table env errors source_rdbms target_rdbms source_schema target_schema
            migrated_table tr = Some (Inr (errors', migrated_table', tr'))"
  then show "\<exists>calls. tr' = tr @ calls \<and> list_all is_data_call calls \<and>
                    inserts_fetched [] calls \<and>
                    mt_count migrated_table' = sum_list (committed_sizes calls) \<and>
                    paged_from 0 calls"
    by (rule migrate_plain_table_calls)
next
  show "\<exists>calls. migrate_plain_table sample_env [] ''sqlserver'' ''postgres'' ''hr'' ''hr''
                  persons_entry [] =
                  Some (Inr ([], persons_entry\<lparr>mt_status := ''full'', mt_count := 7\<rparr>, calls)) \<and>
               committed_sizes calls = [3, 3, 1]"
    by (simp add: migrate_plain_table_sample)
next
  show "\<exists>calls. migrate_plain_table interrupted_env [] ''sqlserver'' ''postgres'' ''hr'' ''hr''
                  persons_entry [] =
                  Some (Inr ([LibraryError ''connection lost''],
                             persons_entry\<lparr>mt_status := ''partial'', mt_count := 6\<rparr>, calls)) \<and>
               committed_sizes calls = [3, 3]"
    by (simp add: migrate_plain_table_def copy_loop.simps build_bulk_select_stmt_def
                  build_bulk_insert_stmt_def column_names_def interrupted_env_def sample_env_def
                  sample_select_def persons_rows_def persons_entry_def Let_def)
qed

theorem committed_batches_counted_witness:
  "\<exists>calls. migrate_plain_table sample_env [] ''sqlserver'' ''postgres'' ''hr'' ''hr''
              persons_entry [] =
              Some (Inr ([], persons_entry\<lparr>mt_status := ''full'', mt_count := 7\<rparr>, calls)) \<and>
           list_all is_data_call calls \<and> inserts_fetched [] calls \<and>
           sum_list (committed_sizes calls) = 7 \<and> paged_from 0 calls"
proof -
  obtain calls where
    run: "migrate_plain_table sample_env [] ''sqlserver'' ''postgres'' ''hr'' ''hr''
            persons_entry [] =
          Some (Inr ([], persons_entry\<lparr>mt_status := ''full'', mt_count := 7\<rparr>, calls))"
    by (simp add: migrate_plain_table_sample)
  from committed_batches_counted [THEN conjunct1, rule_format, OF run]
  have "list_all is_data_call calls \<and> inserts_fetched [] calls \<and>
        sum_list (committed_sizes calls) = 7 \<and> paged_from 0 calls"
    by auto
  with run show ?thesis by blast
qed

section \<open>Properties of migrate\<close>





end
